theory Spec2Isabelle
  imports Complex_Main
begin

section \<open>JavaScript values\<close>

text \<open>
  The syntax tree returned by the SQL parser, the request body and the response bodies are
  plain JavaScript data. An object is the list of its properties, with distinct keys, in
  the order in which \<^verbatim>\<open>Object.values\<close> enumerates them; an array is the list of its
  elements.
  A number is an IEEE double; \<open>JNum\<close> holds the exact rational value of a finite double.
  \<^verbatim>\<open>NaN\<close>, the infinities and the sign of zero are outside the model.
\<close>

datatype jsval =
    JUndefined
  | JNull
  | JBool bool
  | JNum rat
  | JStr string
  | JArr "jsval list"
  | JObj "(string \<times> jsval) list"

text \<open>Truthiness, as \<^verbatim>\<open>!v\<close>, \<^verbatim>\<open>v && ...\<close> and \<^verbatim>\<open>v || ...\<close> read it.\<close>

fun truthy :: "jsval \<Rightarrow> bool" where
  "truthy JUndefined = False"
| "truthy JNull = False"
| "truthy (JBool b) = b"
| "truthy (JNum n) = (n \<noteq> 0)"
| "truthy (JStr s) = (s \<noteq> [])"
| "truthy (JArr xs) = True"
| "truthy (JObj ps) = True"

text \<open>
  \<^verbatim>\<open>v.k\<close> for a key \<open>k\<close> that no prototype defines (\<^verbatim>\<open>type\<close>, \<^verbatim>\<open>name\<close>,
  \<^verbatim>\<open>sql\<close>, \<^verbatim>\<open>params\<close>): reading it from \<^verbatim>\<open>null\<close> or \<^verbatim>\<open>undefined\<close> throws a
  TypeError, an object yields the property or \<^verbatim>\<open>undefined\<close>, every other value yields
  \<^verbatim>\<open>undefined\<close>. \<open>quoted k\<close> is \<open>k\<close> between single quotes, as the message of the
  TypeError shows it.
\<close>

fun field :: "jsval \<Rightarrow> string \<Rightarrow> jsval" where
  "field (JObj ps) k = (case map_of ps k of Some v \<Rightarrow> v | None \<Rightarrow> JUndefined)"
| "field v k = JUndefined"

definition quoted :: "string \<Rightarrow> string" where
  "quoted k = [CHR 0x27] @ k @ [CHR 0x27]"

fun get_prop :: "jsval \<Rightarrow> string \<Rightarrow> string + jsval" where
  "get_prop JUndefined k =
     Inl (''Cannot read properties of undefined (reading '' @ quoted k @ '')'')"
| "get_prop JNull k = Inl (''Cannot read properties of null (reading '' @ quoted k @ '')'')"
| "get_prop v k = Inr (field v k)"

text \<open>
  \<^verbatim>\<open>String.prototype.toLowerCase\<close> on the letters A to Z. No character outside ASCII is
  lowered to a letter that occurs in one of the four forbidden function names, so the
  membership test of \<^verbatim>\<open>checkNode\<close> reads the same with this function.
\<close>

definition lower_char :: "char \<Rightarrow> char" where
  "lower_char c =
     (case map_of (zip ''ABCDEFGHIJKLMNOPQRSTUVWXYZ'' ''abcdefghijklmnopqrstuvwxyz'') c of
        Some d \<Rightarrow> d
      | None \<Rightarrow> c)"

definition toLowerCase :: "string \<Rightarrow> string" where
  "toLowerCase s = map lower_char s"

section \<open>Numbers\<close>

text \<open>
  The arithmetic of the handler is the subtraction \<^verbatim>\<open>user.balance - 0.1\<close> of line 211 and
  the literal \<^verbatim>\<open>0.1\<close> of lines 180, 210 and 211. Both are IEEE double precision: the
  result of an operation is the exact result rounded to the nearest double, a tie going to
  the double with an even significand.
  \<^item> \<open>bit_length n\<close> is the number of binary digits of \<open>n\<close>;
  \<^item> \<open>binary_exponent a\<close> is the \<open>e\<close> with \<open>2^e \<le> a < 2^(e + 1)\<close>, for \<open>a > 0\<close>;
  \<^item> \<open>round_double x\<close> is the double nearest to \<open>x\<close>: 53 binary digits from the
    exponent of \<open>x\<close> down, and a fixed spacing of \<open>2^(- 1074)\<close> below \<open>2^(- 1022)\<close>.
  A difference \<^verbatim>\<open>x - 0.1\<close> of a finite double \<open>x\<close> never exceeds the largest double after
  rounding, so the overflow to infinity is not modelled.
\<close>

function bit_length :: "int \<Rightarrow> int" where
  "bit_length n = (if n \<le> 0 then 0 else 1 + bit_length (n div 2))"
  by pat_completeness auto
termination
  by (relation "measure nat") auto

declare bit_length.simps [simp del]

definition pow2 :: "int \<Rightarrow> rat" where
  "pow2 e = (if 0 \<le> e then 2 ^ nat e else 1 / 2 ^ nat (- e))"

definition binary_exponent :: "rat \<Rightarrow> int" where
  "binary_exponent a =
     (let e0 = bit_length (fst (quotient_of a)) - bit_length (snd (quotient_of a))
      in if pow2 e0 \<le> a then e0 else e0 - 1)"

definition round_half_even :: "rat \<Rightarrow> int" where
  "round_half_even q =
     (let n = \<lfloor>q\<rfloor>; r = q - of_int n
      in if r < 1 / 2 then n else if 1 / 2 < r then n + 1
         else if even n then n else n + 1)"

definition round_double :: "rat \<Rightarrow> rat" where
  "round_double x =
     (if x = 0 then 0
      else
        let ulp = pow2 (max (binary_exponent \<bar>x\<bar>) (- 1022) - 52)
        in sgn x * of_int (round_half_even (\<bar>x\<bar> / ulp)) * ulp)"

text \<open>The operator \<^verbatim>\<open>-\<close> on two numbers, and the value of the literal \<^verbatim>\<open>0.1\<close>.\<close>

definition js_minus :: "rat \<Rightarrow> rat \<Rightarrow> rat" where
  "js_minus x y = round_double (x - y)"

definition zero_point_one :: rat where
  "zero_point_one = round_double (1 / 10)"

section \<open>The read-only validator\<close>

text \<open>
  \<^verbatim>\<open>validateReadOnlyQuery\<close> keeps two local variables that \<^verbatim>\<open>checkNode\<close> assigns:
  \<^verbatim>\<open>hasNonReadOperation\<close> and \<^verbatim>\<open>errorMessage\<close>.
\<close>

record vstate =
  hasNonReadOperation :: bool
  errorMessage :: string

definition init_vstate :: vstate where
  "init_vstate = \<lparr>hasNonReadOperation = False, errorMessage = []\<rparr>"

text \<open>The statement types of the first test of \<^verbatim>\<open>checkNode\<close> (lines 58 to 67).\<close>

definition write_stmt_types :: "string list" where
  "write_stmt_types =
     [''insert_stmt'', ''update_stmt'', ''delete_stmt'', ''create_table_stmt'',
      ''drop_table_stmt'', ''alter_table_stmt'', ''create_index_stmt'', ''drop_index_stmt'']"

definition dangerousFunctions :: "string list" where
  "dangerousFunctions =
     [''load_extension'', ''sqlite_compileoption_used'', ''sqlite_compileoption_get'',
      ''pragma'']"

definition is_write_stmt :: "jsval \<Rightarrow> bool" where
  "is_write_stmt node =
     (case field node ''type'' of JStr t \<Rightarrow> t \<in> set write_stmt_types | _ \<Rightarrow> False)"

definition type_text :: "jsval \<Rightarrow> string" where
  "type_text node = (case field node ''type'' of JStr t \<Rightarrow> t | _ \<Rightarrow> [])"

text \<open>The TypeError of \<^verbatim>\<open>node.name.toLowerCase()\<close> when the name is not a string.\<close>

definition toLowerCase_TypeError :: string where
  "toLowerCase_TypeError = ''node.name.toLowerCase is not a function''"

text \<open>
  \<^verbatim>\<open>checkNode\<close> (lines 54 to 98). The result is \<open>Inl\<close> of the message when an exception
  leaves the function, else the two variables after the call.
  \<^item> \<open>checkNode\<close> is the function itself; arrays pass its first guard (their
    \<^verbatim>\<open>typeof\<close> is \<^verbatim>\<open>"object"\<close>), have no \<^verbatim>\<open>type\<close>, and \<^verbatim>\<open>Object.values\<close> lists
    their elements;
  \<^item> \<open>each_value\<close> is \<^verbatim>\<open>forEach\<close> over \<^verbatim>\<open>Object.values(node)\<close> of an array, and
    \<open>each_property\<close> the same over the properties of an object;
  \<^item> \<open>visit_value\<close> is the callback of lines 91 to 97;
  \<^item> \<open>each_checkNode\<close> is \<^verbatim>\<open>value.forEach(checkNode)\<close>.
  A \<^verbatim>\<open>return\<close> ends one call of \<^verbatim>\<open>checkNode\<close>; the enclosing \<^verbatim>\<open>forEach\<close> goes on
  with the next element.
\<close>

fun checkNode :: "jsval \<Rightarrow> vstate \<Rightarrow> string + vstate"
  and each_value :: "jsval list \<Rightarrow> vstate \<Rightarrow> string + vstate"
  and each_property :: "(string \<times> jsval) list \<Rightarrow> vstate \<Rightarrow> string + vstate"
  and visit_value :: "jsval \<Rightarrow> vstate \<Rightarrow> string + vstate"
  and each_checkNode :: "jsval list \<Rightarrow> vstate \<Rightarrow> string + vstate"
where
  "checkNode (JObj ps) s =
     (if is_write_stmt (JObj ps) then
        Inr (s\<lparr>hasNonReadOperation := True,
               errorMessage := ''Write operation not allowed: '' @ type_text (JObj ps)\<rparr>)
      else if field (JObj ps) ''type'' = JStr ''function_call'' \<and> truthy (field (JObj ps) ''name'') then
        (case field (JObj ps) ''name'' of
           JStr f \<Rightarrow>
             if toLowerCase f \<in> set dangerousFunctions then
               Inr (s\<lparr>hasNonReadOperation := True,
                      errorMessage := ''Function not allowed: '' @ toLowerCase f\<rparr>)
             else each_property ps s
         | _ \<Rightarrow> Inl toLowerCase_TypeError)
      else each_property ps s)"
| "checkNode (JArr xs) s = each_value xs s"
| "checkNode v s = Inr s"
| "each_value [] s = Inr s"
| "each_value (v # vs) s =
     (case visit_value v s of Inl e \<Rightarrow> Inl e | Inr s' \<Rightarrow> each_value vs s')"
| "each_property [] s = Inr s"
| "each_property (p # ps) s =
     (case visit_value (snd p) s of Inl e \<Rightarrow> Inl e | Inr s' \<Rightarrow> each_property ps s')"
| "visit_value (JArr ys) s = each_checkNode ys s"
| "visit_value (JObj qs) s = checkNode (JObj qs) s"
| "visit_value v s = Inr s"
| "each_checkNode [] s = Inr s"
| "each_checkNode (y # ys) s =
     (case checkNode y s of Inl e \<Rightarrow> Inl e | Inr s' \<Rightarrow> each_checkNode ys s')"

text \<open>
  The result of \<^verbatim>\<open>validateReadOnlyQuery\<close>: \<^verbatim>\<open>{ isValid, error? }\<close>.
\<close>

record verdict =
  isValid :: bool
  error :: "string option"

text \<open>
  \<^verbatim>\<open>validateReadOnlyQuery\<close> (lines 41 to 113). The parser of the package
  \<^verbatim>\<open>sql-parser-cst\<close> is a parameter: \<open>parse sql\<close> is \<open>Inl msg\<close> when it throws an error
  with message \<open>msg\<close>, else \<open>Inr cst\<close>. The argument is declared a string; at run time it
  is whatever \<^verbatim>\<open>data.sql\<close> holds, so the model passes the JavaScript value, and a
  statement text \<open>t\<close> is \<open>JStr t\<close>. The \<^verbatim>\<open>catch\<close> of line 107 also receives what
  \<^verbatim>\<open>checkNode\<close> throws.
\<close>

definition validateReadOnlyQuery :: "(jsval \<Rightarrow> string + jsval) \<Rightarrow> jsval \<Rightarrow> verdict" where
  "validateReadOnlyQuery parse sql =
     (case parse sql of
        Inl msg \<Rightarrow> \<lparr>isValid = False, error = Some (''SQL parsing error: '' @ msg)\<rparr>
      | Inr cst \<Rightarrow>
          (case checkNode cst init_vstate of
             Inl msg \<Rightarrow> \<lparr>isValid = False, error = Some (''SQL parsing error: '' @ msg)\<rparr>
           | Inr s \<Rightarrow>
               if hasNonReadOperation s then \<lparr>isValid = False, error = Some (errorMessage s)\<rparr>
               else \<lparr>isValid = True, error = None\<rparr>))"

section \<open>Notions the properties are stated with\<close>

text \<open>Every value of a tree, at any depth, the tree itself first.\<close>

fun subnodes :: "jsval \<Rightarrow> jsval list"
  and subnodes_list :: "jsval list \<Rightarrow> jsval list"
  and subnodes_props :: "(string \<times> jsval) list \<Rightarrow> jsval list"
where
  "subnodes (JArr xs) = JArr xs # subnodes_list xs"
| "subnodes (JObj ps) = JObj ps # subnodes_props ps"
| "subnodes v = [v]"
| "subnodes_list [] = []"
| "subnodes_list (x # xs) = subnodes x @ subnodes_list xs"
| "subnodes_props [] = []"
| "subnodes_props (p # ps) = subnodes (snd p) @ subnodes_props ps"

text \<open>
  A call of a forbidden function: a node of type \<^verbatim>\<open>function_call\<close> whose name is a
  string that is, in lower case, one of \<open>dangerousFunctions\<close>.
\<close>

definition is_dangerous_call :: "jsval \<Rightarrow> bool" where
  "is_dangerous_call node =
     (field node ''type'' = JStr ''function_call'' \<and>
      (case field node ''name'' of
         JStr f \<Rightarrow> toLowerCase f \<in> set dangerousFunctions
       | _ \<Rightarrow> False))"

text \<open>The name of the called function, in lower case.\<close>

definition callee :: "jsval \<Rightarrow> string" where
  "callee node = (case field node ''name'' of JStr f \<Rightarrow> toLowerCase f | _ \<Rightarrow> [])"

text \<open>
  A node of type \<^verbatim>\<open>function_call\<close> with a truthy name: the nodes on which the second
  test of \<^verbatim>\<open>checkNode\<close> calls \<^verbatim>\<open>toLowerCase\<close>.
\<close>

definition is_named_call :: "jsval \<Rightarrow> bool" where
  "is_named_call node =
     (field node ''type'' = JStr ''function_call'' \<and> truthy (field node ''name''))"

text \<open>The name of a named call is a string.\<close>

definition name_is_text :: "jsval \<Rightarrow> bool" where
  "name_is_text node =
     (if is_named_call node then (case field node ''name'' of JStr f \<Rightarrow> True | _ \<Rightarrow> False)
      else True)"

text \<open>The reasons that name a write operation.\<close>

definition write_reasons :: "string list" where
  "write_reasons = map (append ''Write operation not allowed: '') write_stmt_types"

text \<open>
  The violations of a tree in the order of the traversal: a violating node contributes its
  reason and its own children are not visited; every other object or array contributes the
  violations of its values, from first to last.
\<close>

definition violation :: "jsval \<Rightarrow> string option" where
  "violation node =
     (if is_write_stmt node then Some (''Write operation not allowed: '' @ type_text node)
      else if is_dangerous_call node then Some (''Function not allowed: '' @ callee node)
      else None)"

fun violations :: "jsval \<Rightarrow> string list"
  and violations_list :: "jsval list \<Rightarrow> string list"
  and violations_props :: "(string \<times> jsval) list \<Rightarrow> string list"
where
  "violations (JArr xs) = violations_list xs"
| "violations (JObj ps) =
     (case violation (JObj ps) of Some r \<Rightarrow> [r] | None \<Rightarrow> violations_props ps)"
| "violations v = []"
| "violations_list [] = []"
| "violations_list (x # xs) = violations x @ violations_list xs"
| "violations_props [] = []"
| "violations_props (p # ps) = violations (snd p) @ violations_props ps"

text \<open>What a tree contains, at any depth.\<close>

definition contains_write_stmt :: "jsval \<Rightarrow> bool" where
  "contains_write_stmt cst = list_ex is_write_stmt (subnodes cst)"

definition contains_dangerous_call :: "jsval \<Rightarrow> bool" where
  "contains_dangerous_call cst = list_ex is_dangerous_call (subnodes cst)"

definition names_are_text :: "jsval \<Rightarrow> bool" where
  "names_are_text cst = list_all name_is_text (subnodes cst)"

text \<open>
  The package \<^verbatim>\<open>sql-parser-cst\<close> is not among the sources. In the trees it returns, the
  node of a function call has the type \<^verbatim>\<open>func_call\<close> and carries the callee as an
  identifier node; no node has the type \<^verbatim>\<open>function_call\<close> that line 74 tests for.
  \<open>parser_tree\<close> states this of a tree.
\<close>

definition is_function_call_node :: "jsval \<Rightarrow> bool" where
  "is_function_call_node node = (field node ''type'' = JStr ''function_call'')"

definition parser_tree :: "jsval \<Rightarrow> bool" where
  "parser_tree cst = (\<not> list_ex is_function_call_node (subnodes cst))"

text \<open>
  The two variables after a traversal that met the violations \<open>rs\<close> in this order, each
  assignment replacing the one before.
\<close>

definition report :: "string list \<Rightarrow> vstate \<Rightarrow> vstate" where
  "report rs s =
     (if rs = [] then s else s\<lparr>hasNonReadOperation := True, errorMessage := last rs\<rparr>)"

text \<open>The verdict that reports the last violation of the traversal, if there is one.\<close>

definition last_violation_verdict :: "jsval \<Rightarrow> verdict" where
  "last_violation_verdict cst =
     (if violations cst = [] then \<lparr>isValid = True, error = None\<rparr>
      else \<lparr>isValid = False, error = Some (last (violations cst))\<rparr>)"

text \<open>The verdict when \<^verbatim>\<open>checkNode\<close> throws its TypeError.\<close>

definition type_error_verdict :: verdict where
  "type_error_verdict =
     \<lparr>isValid = False, error = Some (''SQL parsing error: '' @ toLowerCase_TypeError)\<rparr>"

text \<open>
  The outcome of a traversal of the values \<open>ns\<close> with violations \<open>rs\<close>: it returns with
  the report of \<open>rs\<close>, or it throws the TypeError and some named call has no text name.
\<close>

definition traversal_ok ::
  "jsval list \<Rightarrow> string list \<Rightarrow> vstate \<Rightarrow> string + vstate \<Rightarrow> bool" where
  "traversal_ok ns rs s res =
     (case res of
        Inr s' \<Rightarrow> s' = report rs s
      | Inl e \<Rightarrow> e = toLowerCase_TypeError \<and> \<not> list_all name_is_text ns)"

section \<open>The request handler\<close>

text \<open>
  The context that \<^verbatim>\<open>withStripeflare\<close> hands to the handler: the user record read at the
  start of the request. Only the two fields the handler reads are kept. A missing or empty
  \<^verbatim>\<open>access_token\<close> is falsy; \<^verbatim>\<open>balance\<close> is a finite number.
\<close>

record user =
  access_token :: "string option"
  balance :: rat

definition token_present :: "string option \<Rightarrow> bool" where
  "token_present t = (case t of None \<Rightarrow> False | Some a \<Rightarrow> a \<noteq> [])"

text \<open>
  The request: path, \<^verbatim>\<open>request.method\<close>, and the outcome of \<^verbatim>\<open>await request.json()\<close>, which is
  \<open>Inl msg\<close> when the body is missing or is not JSON and the call throws.
\<close>

record request =
  pathname :: string
  http_method :: string
  json :: "string + jsval"

text \<open>
  Modelled from the spec: the result type of the ledger's \<^verbatim>\<open>charge\<close>, declared in the
  package \<^verbatim>\<open>stripeflare\<close>, which is not among the sources. The spec gives it the fields
  \<^verbatim>\<open>charged\<close>, \<^verbatim>\<open>message\<close> and the balance after the charge; the handler reads the first
  two.
\<close>

record chargeResult =
  charged :: bool
  message :: "string option"
  balanceAfter :: rat

text \<open>
  What the handler reads from the cursor of the storage client: \<^verbatim>\<open>columnNames\<close>, the rows
  of \<^verbatim>\<open>Array.from(await cursor.raw())\<close>, \<^verbatim>\<open>rowsRead\<close> and \<^verbatim>\<open>rowsWritten\<close>.
\<close>

record cursor =
  columnNames :: "string list"
  raw :: "jsval list"
  rowsRead :: nat
  rowsWritten :: nat

text \<open>
  The collaborators are parameters. Each works on its own state: the ledger \<open>'l\<close> for
  \<^verbatim>\<open>charge\<close>, the shared store \<open>'d\<close> for the storage client. A collaborator that throws
  yields the message of the error.
  \<^item> \<open>parse_sql\<close> is \<^verbatim>\<open>parse(sql, {dialect: "sqlite"})\<close>;
  \<^item> \<open>charge amount flag\<close> is \<^verbatim>\<open>await charge(amount, flag)\<close>;
  \<^item> \<open>createClient\<close> is \<^verbatim>\<open>createSharedDbClient(env, ctx)\<close>, \<open>Some msg\<close> when it throws;
  \<^item> \<open>exec sql params\<close> is \<^verbatim>\<open>sharedClient.exec(sql, ...params)\<close> followed by the reads
    of the cursor (lines 200 to 209).
\<close>

record ('l, 'd) services =
  parse_sql :: "jsval \<Rightarrow> string + jsval"
  charge :: "rat \<Rightarrow> bool \<Rightarrow> 'l \<Rightarrow> (string + chargeResult) \<times> 'l"
  createClient :: "'d \<Rightarrow> string option \<times> 'd"
  exec :: "jsval \<Rightarrow> jsval list \<Rightarrow> 'd \<Rightarrow> (string + cursor) \<times> 'd"

text \<open>
  The calls the handler makes to its collaborators and to \<^verbatim>\<open>console.error\<close>, and the
  state they work on; \<open>calls\<close> lists the calls made so far, the latest last.
\<close>

datatype call =
    CallCharge rat bool
  | CallCreateClient
  | CallExec jsval "jsval list"
  | CallConsoleError string

record ('l, 'd) world =
  ledger :: 'l
  store :: 'd
  calls :: "call list"

text \<open>
  A response: status, headers, and the value given to \<^verbatim>\<open>JSON.stringify\<close> (which omits
  the properties whose value is \<^verbatim>\<open>undefined\<close>) or the welcome page.
\<close>

datatype payload = Json jsval | Html

record response =
  status :: nat
  headers :: "(string \<times> string) list"
  body :: payload

definition respond_json :: "nat \<Rightarrow> jsval \<Rightarrow> response" where
  "respond_json st v =
     \<lparr>status = st, headers = [(''Content-Type'', ''application/json'')], body = Json v\<rparr>"

definition welcome_page :: response where
  "welcome_page = \<lparr>status = 200, headers = [(''Content-Type'', ''text/html'')], body = Html\<rparr>"

definition text_or_undefined :: "string option \<Rightarrow> jsval" where
  "text_or_undefined t = (case t of None \<Rightarrow> JUndefined | Some a \<Rightarrow> JStr a)"

text \<open>
  The spread \<^verbatim>\<open>...(data.params || [])\<close> of line 200: an array spreads to its elements,
  a string to its characters, and any other truthy value is not iterable.
\<close>

definition spread_params :: "jsval \<Rightarrow> string + jsval list" where
  "spread_params v =
     (case (if truthy v then v else JArr []) of
        JArr xs \<Rightarrow> Inr xs
      | JStr t \<Rightarrow> Inr (map (\<lambda>c. JStr [c]) t)
      | _ \<Rightarrow> Inl ''Spread syntax requires ...iterable[Symbol.iterator] to be a function'')"

text \<open>
  Lines 196 to 201: create the client, evaluate the arguments, execute. \<open>data\<close> is the
  parsed body, which is neither \<^verbatim>\<open>null\<close> nor \<^verbatim>\<open>undefined\<close> here.
\<close>

definition run_query ::
  "('l, 'd) services \<Rightarrow> jsval \<Rightarrow> ('l, 'd) world \<Rightarrow> (string + cursor) \<times> ('l, 'd) world" where
  "run_query sv data w =
     (case createClient sv (store w) of
        (Some e, d1) \<Rightarrow> (Inl e, w\<lparr>store := d1, calls := calls w @ [CallCreateClient]\<rparr>)
      | (None, d1) \<Rightarrow>
          (case spread_params (field data ''params'') of
             Inl e \<Rightarrow> (Inl e, w\<lparr>store := d1, calls := calls w @ [CallCreateClient]\<rparr>)
           | Inr ps \<Rightarrow>
               (case exec sv (field data ''sql'') ps d1 of
                  (res, d2) \<Rightarrow>
                    (res, w\<lparr>store := d2,
                            calls := calls w @ [CallCreateClient, CallExec (field data ''sql'') ps]\<rparr>))))"

text \<open>Lines 204 to 213: the \<^verbatim>\<open>result\<close> object.\<close>

definition result_json :: "cursor \<Rightarrow> user \<Rightarrow> jsval" where
  "result_json c u =
     JObj [(''columns'', JArr (map JStr (columnNames c))),
           (''rows'', JArr (raw c)),
           (''meta'',
            JObj [(''rows_read'', JNum (of_nat (rowsRead c))),
                  (''rows_written'', JNum (of_nat (rowsWritten c))),
                  (''charge_applied'', JNum zero_point_one),
                  (''remaining_balance'', JNum (js_minus (balance u) zero_point_one))])]"

definition success_response :: "cursor \<Rightarrow> user \<Rightarrow> response" where
  "success_response c u =
     \<lparr>status = 200,
      headers = [(''Content-Type'', ''application/json''), (''Access-Control-Allow-Origin'', ''*'')],
      body = Json (JObj [(''result'', result_json c u)])\<rparr>"

text \<open>
  Lines 179 to 220: charge, then execute and answer. The result is \<open>Inl msg\<close> when an
  exception leaves the \<^verbatim>\<open>try\<close> block.
\<close>

definition charge_and_run ::
  "('l, 'd) services \<Rightarrow> user \<Rightarrow> jsval \<Rightarrow> ('l, 'd) world \<Rightarrow> (string + response) \<times> ('l, 'd) world"
  where
  "charge_and_run sv u data w =
     (case charge sv zero_point_one False (ledger w) of
        (Inl e, l1) \<Rightarrow> (Inl e, w\<lparr>ledger := l1, calls := calls w @ [CallCharge zero_point_one False]\<rparr>)
      | (Inr chargeResult, l1) \<Rightarrow>
          if \<not> charged chargeResult then
            (Inr (respond_json 402
                    (JObj [(''error'', JStr ''Insufficient balance''),
                           (''message'', text_or_undefined (message chargeResult)),
                           (''balance'', JNum (balance u))])),
             w\<lparr>ledger := l1, calls := calls w @ [CallCharge zero_point_one False]\<rparr>)
          else
            (case run_query sv data
                    (w\<lparr>ledger := l1, calls := calls w @ [CallCharge zero_point_one False]\<rparr>) of
               (Inl e, w2) \<Rightarrow> (Inl e, w2)
             | (Inr c, w2) \<Rightarrow> (Inr (success_response c u), w2)))"

text \<open>Lines 137 to 220: the body of the \<^verbatim>\<open>try\<close> block.\<close>

definition query_shared ::
  "('l, 'd) services \<Rightarrow> user \<Rightarrow> request \<Rightarrow> ('l, 'd) world \<Rightarrow> (string + response) \<times> ('l, 'd) world"
  where
  "query_shared sv u req w =
     (if \<not> token_present (access_token u) then
        (Inr (respond_json 401 (JObj [(''error'', JStr ''Authentication required'')])), w)
      else
        (case json req of
           Inl e \<Rightarrow> (Inl e, w)
         | Inr data \<Rightarrow>
             (case get_prop data ''sql'' of
                Inl e \<Rightarrow> (Inl e, w)
              | Inr sql \<Rightarrow>
                  if \<not> truthy sql then
                    (Inr (respond_json 400 (JObj [(''error'', JStr ''SQL query is required'')])), w)
                  else if \<not> isValid (validateReadOnlyQuery (parse_sql sv) sql) then
                    (Inr (respond_json 400
                            (JObj [(''error'', JStr ''Invalid query''),
                                   (''details'',
                                    text_or_undefined
                                      (error (validateReadOnlyQuery (parse_sql sv) sql)))])),
                     w)
                  else charge_and_run sv u data w)))"

text \<open>
  Lines 221 to 233: the response of the \<^verbatim>\<open>catch\<close> block for an error with message \<open>e\<close>.
\<close>

definition failure_response :: "string \<Rightarrow> response" where
  "failure_response e =
     respond_json 500 (JObj [(''error'', JStr ''Query execution failed''), (''details'', JStr e)])"

text \<open>
  The handler (lines 130 to 320): the route of the query endpoint with its \<^verbatim>\<open>catch\<close>
  (lines 221 to 233), and the welcome page for every other request.
\<close>

definition fetch ::
  "('l, 'd) services \<Rightarrow> user \<Rightarrow> request \<Rightarrow> ('l, 'd) world \<Rightarrow> response \<times> ('l, 'd) world" where
  "fetch sv u req w =
     (if pathname req = ''/query/shared'' \<and> http_method req = ''POST'' then
        (case query_shared sv u req w of
           (Inr r, w') \<Rightarrow> (r, w')
         | (Inl e, w') \<Rightarrow> (failure_response e, w'\<lparr>calls := calls w' @ [CallConsoleError e]\<rparr>))
      else (welcome_page, w))"

text \<open>
  The JSON value of a response; whether a call is a charge, and whether it is a call to the
  storage client.
\<close>

definition body_json :: "response \<Rightarrow> jsval" where
  "body_json r = (case body r of Json v \<Rightarrow> v | Html \<Rightarrow> JUndefined)"

fun is_charge :: "call \<Rightarrow> bool" where
  "is_charge (CallCharge a b) = True"
| "is_charge c = False"

fun is_storage_call :: "call \<Rightarrow> bool" where
  "is_storage_call CallCreateClient = True"
| "is_storage_call (CallExec q ps) = True"
| "is_storage_call c = False"

text \<open>
  A request that passes the checks before the validation: it is a POST to the query route,
  the user has a token, the body is a JSON value \<open>data\<close> other than \<^verbatim>\<open>null\<close>, and
  \<^verbatim>\<open>data.sql\<close> is the truthy value \<open>sql\<close>.
\<close>

definition accepted_body :: "user \<Rightarrow> request \<Rightarrow> jsval \<Rightarrow> jsval \<Rightarrow> bool" where
  "accepted_body u req data sql =
     (pathname req = ''/query/shared'' \<and> http_method req = ''POST'' \<and>
      token_present (access_token u) \<and> json req = Inr data \<and>
      get_prop data ''sql'' = Inr sql \<and> truthy sql)"

text \<open>The world after the call of \<^verbatim>\<open>charge(0.1, false)\<close> that left the ledger \<open>l1\<close>.\<close>

definition charged_world :: "('l, 'd) world \<Rightarrow> 'l \<Rightarrow> ('l, 'd) world" where
  "charged_world w l1 = w\<lparr>ledger := l1, calls := calls w @ [CallCharge zero_point_one False]\<rparr>"

section \<open>Sample inputs\<close>

text \<open>
  Concrete trees, a parser, collaborators and requests, on which the theorems below are
  instantiated. The trees follow those of \<^verbatim>\<open>sql-parser-cst\<close> for the sqlite dialect,
  abridged: the keyword nodes are left out.
\<close>

definition ident :: "string \<Rightarrow> jsval" where
  "ident t = JObj [(''type'', JStr ''identifier''), (''text'', JStr t), (''name'', JStr t)]"

definition list_expr :: "jsval list \<Rightarrow> jsval" where
  "list_expr items = JObj [(''type'', JStr ''list_expr''), (''items'', JArr items)]"

definition paren_expr :: "jsval \<Rightarrow> jsval" where
  "paren_expr e = JObj [(''type'', JStr ''paren_expr''), (''expr'', e)]"

definition func_call :: "string \<Rightarrow> jsval list \<Rightarrow> jsval" where
  "func_call f args =
     JObj [(''type'', JStr ''func_call''), (''name'', ident f),
           (''args'',
            paren_expr (JObj [(''type'', JStr ''func_args''), (''args'', list_expr args)]))]"

definition all_columns :: jsval where
  "all_columns = JObj [(''type'', JStr ''all_columns'')]"

definition string_literal :: "string \<Rightarrow> jsval" where
  "string_literal t =
     JObj [(''type'', JStr ''string_literal''), (''text'', JStr (quoted t)), (''value'', JStr t)]"

definition number_literal :: "string \<Rightarrow> rat \<Rightarrow> jsval" where
  "number_literal t n =
     JObj [(''type'', JStr ''number_literal''), (''text'', JStr t), (''value'', JNum n)]"

definition program :: "jsval list \<Rightarrow> jsval" where
  "program stmts = JObj [(''type'', JStr ''program''), (''statements'', JArr stmts)]"

definition select_from :: "jsval list \<Rightarrow> string \<Rightarrow> jsval" where
  "select_from cols t =
     JObj [(''type'', JStr ''select_stmt''),
           (''clauses'',
            JArr [JObj [(''type'', JStr ''select_clause''), (''modifiers'', JArr []),
                        (''columns'', list_expr cols)],
                  JObj [(''type'', JStr ''from_clause''), (''expr'', ident t)]])]"

definition select_only :: "jsval list \<Rightarrow> jsval" where
  "select_only cols =
     JObj [(''type'', JStr ''select_stmt''),
           (''clauses'',
            JArr [JObj [(''type'', JStr ''select_clause''), (''modifiers'', JArr []),
                        (''columns'', list_expr cols)]])]"

definition insert_sample :: jsval where
  "insert_sample =
     JObj [(''type'', JStr ''insert_stmt''),
           (''clauses'',
            JArr [JObj [(''type'', JStr ''insert_clause''), (''table'', ident ''sample_data''),
                        (''columns'', paren_expr (list_expr [ident ''id'']))],
                  JObj [(''type'', JStr ''values_clause''),
                        (''values'',
                         list_expr [paren_expr (list_expr [number_literal ''9'' 9])])]])]"

definition delete_sample :: jsval where
  "delete_sample =
     JObj [(''type'', JStr ''delete_stmt''),
           (''clauses'',
            JArr [JObj [(''type'', JStr ''delete_clause''),
                        (''tables'', list_expr [ident ''sample_data''])]])]"

definition count_query :: jsval where
  "count_query = JStr ''SELECT COUNT(*) as total FROM sample_data''"

definition count_tree :: jsval where
  "count_tree =
     program
       [select_from
          [JObj [(''type'', JStr ''alias''), (''expr'', func_call ''COUNT'' [all_columns]),
                 (''alias'', ident ''total'')]]
          ''sample_data'']"

definition missing_query :: jsval where
  "missing_query = JStr ''SELECT * FROM missing''"

definition missing_tree :: jsval where
  "missing_tree = program [select_from [all_columns] ''missing'']"

definition delete_query :: jsval where
  "delete_query = JStr ''delete from sample_data''"

definition delete_tree :: jsval where
  "delete_tree = program [delete_sample]"

definition load_query :: jsval where
  "load_query = JStr (''SELECT load_extension('' @ quoted ''x'' @ '')'')"

definition load_tree :: jsval where
  "load_tree = program [select_only [func_call ''load_extension'' [string_literal ''x'']]]"

definition insert_delete_query :: jsval where
  "insert_delete_query = JStr ''INSERT INTO sample_data (id) VALUES (9); DELETE FROM sample_data''"

definition insert_delete_tree :: jsval where
  "insert_delete_tree = program [insert_sample, delete_sample]"

definition malformed_query :: jsval where
  "malformed_query = JStr ''SELEC * FROM x''"

text \<open>A parser that knows the statements above and rejects every other text.\<close>

definition sample_parse :: "jsval \<Rightarrow> string + jsval" where
  "sample_parse sql =
     (if sql = count_query then Inr count_tree
      else if sql = missing_query then Inr missing_tree
      else if sql = delete_query then Inr delete_tree
      else if sql = load_query then Inr load_tree
      else if sql = insert_delete_query then Inr insert_delete_tree
      else Inl ''Syntax error: Unexpected input'')"

text \<open>
  A ledger that holds one balance: a charge fails below the amount and debits otherwise.
\<close>

definition sample_charge :: "rat \<Rightarrow> bool \<Rightarrow> rat \<Rightarrow> (string + chargeResult) \<times> rat" where
  "sample_charge amount flag bal =
     (if bal < amount then
        (Inr \<lparr>charged = False, message = Some ''Insufficient balance'', balanceAfter = bal\<rparr>, bal)
      else
        (Inr \<lparr>charged = True, message = None, balanceAfter = js_minus bal amount\<rparr>,
         js_minus bal amount))"

text \<open>A store that answers the count of its rows and knows no other table.\<close>

definition sample_createClient :: "nat \<Rightarrow> string option \<times> nat" where
  "sample_createClient d = (None, d)"

definition sample_exec :: "jsval \<Rightarrow> jsval list \<Rightarrow> nat \<Rightarrow> (string + cursor) \<times> nat" where
  "sample_exec sql ps d =
     (if sql = count_query then
        (Inr \<lparr>columnNames = [''total''], raw = [JArr [JNum (of_nat d)]],
              rowsRead = d, rowsWritten = 0\<rparr>, d)
      else (Inl ''no such table: missing'', d))"

definition sample_services :: "(rat, nat) services" where
  "sample_services =
     \<lparr>parse_sql = sample_parse, charge = sample_charge,
      createClient = sample_createClient, exec = sample_exec\<rparr>"

definition sample_user :: user where
  "sample_user = \<lparr>access_token = Some ''token'', balance = 100\<rparr>"

definition sample_world :: "(rat, nat) world" where
  "sample_world = \<lparr>ledger = 100, store = 5, calls = []\<rparr>"

text \<open>A ledger that holds less than the snapshot of the user record says.\<close>

definition stale_world :: "(rat, nat) world" where
  "stale_world = \<lparr>ledger = 50, store = 5, calls = []\<rparr>"

definition poor_world :: "(rat, nat) world" where
  "poor_world = \<lparr>ledger = 0, store = 5, calls = []\<rparr>"

definition post :: "string + jsval \<Rightarrow> request" where
  "post b = \<lparr>pathname = ''/query/shared'', http_method = ''POST'', json = b\<rparr>"

definition query_request :: "jsval \<Rightarrow> request" where
  "query_request sql = post (Inr (JObj [(''sql'', sql)]))"

definition empty_request :: request where
  "empty_request = post (Inr (JObj []))"

definition malformed_request :: request where
  "malformed_request = post (Inl ''Unexpected end of JSON input'')"

definition null_request :: request where
  "null_request = post (Inr JNull)"

section \<open>The traversal\<close>

lemma checkNode_JObj:
  "checkNode (JObj ps) s =
     (case violation (JObj ps) of
        Some r \<Rightarrow> Inr (s\<lparr>hasNonReadOperation := True, errorMessage := r\<rparr>)
      | None \<Rightarrow>
          if name_is_text (JObj ps) then each_property ps s else Inl toLowerCase_TypeError)"
proof (cases "is_write_stmt (JObj ps)")
  case True
  then show ?thesis by (simp add: violation_def del: field.simps)
next
  case nw: False
  show ?thesis
  proof (cases "field (JObj ps) ''type'' = JStr ''function_call'' \<and> truthy (field (JObj ps) ''name'')")
    case False
    then have "\<not> is_dangerous_call (JObj ps)"
      by (auto simp: is_dangerous_call_def toLowerCase_def dangerousFunctions_def
          simp del: field.simps split: jsval.splits)
    with nw False show ?thesis
      by (auto simp: violation_def name_is_text_def is_named_call_def simp del: field.simps)
  next
    case True
    with nw show ?thesis
      by (cases "field (JObj ps) ''name''")
        (simp_all add: violation_def name_is_text_def is_named_call_def is_dangerous_call_def
          callee_def del: field.simps)
  qed
qed


lemma report_Nil: "report [] s = s"
  by (simp add: report_def)

lemma report_single: "report [r] s = s\<lparr>hasNonReadOperation := True, errorMessage := r\<rparr>"
  by (simp add: report_def)

lemma report_append: "report (xs @ ys) s = report ys (report xs s)"
  by (simp add: report_def)

lemma traversal_ok_Inr: "traversal_ok ns rs s (Inr s') = (s' = report rs s)"
  by (simp add: traversal_ok_def)

lemma traversal_ok_Inl:
  "traversal_ok ns rs s (Inl e) = (e = toLowerCase_TypeError \<and> \<not> list_all name_is_text ns)"
  by (simp add: traversal_ok_def)

lemma traversal_ok_seq:
  assumes "traversal_ok ns rs s r1"
    and "\<And>s1. r1 = Inr s1 \<Longrightarrow> traversal_ok ms qs s1 (k s1)"
  shows "traversal_ok (ns @ ms) (rs @ qs) s (case r1 of Inl e \<Rightarrow> Inl e | Inr s1 \<Rightarrow> k s1)"
proof (cases r1)
  case (Inl e)
  with assms(1) show ?thesis by (simp add: traversal_ok_def)
next
  case (Inr s1)
  with assms(1) have s1: "s1 = report rs s" by (simp add: traversal_ok_def)
  from assms(2)[OF Inr] show ?thesis
    unfolding Inr by (cases "k s1") (simp_all add: traversal_ok_def s1 report_append)
qed

lemma traversal_ok_cons:
  "traversal_ok ns rs s res \<Longrightarrow> name_is_text n \<Longrightarrow> traversal_ok (n # ns) rs s res"
  by (cases res) (simp_all add: traversal_ok_def)

lemma name_is_text_array: "name_is_text (JArr xs)"
  by (simp add: name_is_text_def is_named_call_def)

lemma checkNode_traversal:
  "traversal_ok (subnodes v) (violations v) s (checkNode v s)"
  "traversal_ok (subnodes_list vs) (violations_list vs) s (each_value vs s)"
  "traversal_ok (subnodes_props ps) (violations_props ps) s (each_property ps s)"
  "traversal_ok (subnodes v) (violations v) s (visit_value v s)"
  "traversal_ok (subnodes_list vs) (violations_list vs) s (each_checkNode vs s)"
proof (induction v s and vs s and ps s and v s and vs s
    rule: checkNode_each_value_each_property_visit_value_each_checkNode.induct)
  case (1 ps s)
  show ?case
  proof (cases "violation (JObj ps)")
    case (Some r)
    then show ?thesis
      by (simp add: checkNode_JObj report_single traversal_ok_Inr del: checkNode.simps(1))
  next
    case None
    then have nw: "\<not> is_write_stmt (JObj ps)" and nd: "\<not> is_dangerous_call (JObj ps)"
      by (auto simp: violation_def split: if_splits)
    show ?thesis
    proof (cases "name_is_text (JObj ps)")
      case False
      with None show ?thesis
        by (simp add: checkNode_JObj traversal_ok_Inl del: checkNode.simps(1))
    next
      case True
      have ih: "traversal_ok (subnodes_props ps) (violations_props ps) s (each_property ps s)"
      proof (cases "is_named_call (JObj ps)")
        case False
        with nw show ?thesis
          using "1.IH"(2) by (simp add: is_named_call_def del: field.simps)
      next
        case nc: True
        with True obtain f where f: "field (JObj ps) ''name'' = JStr f"
          by (auto simp: name_is_text_def simp del: field.simps split: jsval.splits)
        with nc nd have "toLowerCase f \<notin> set dangerousFunctions"
          by (simp add: is_dangerous_call_def is_named_call_def del: field.simps)
        with nw nc f show ?thesis
          using "1.IH"(1) by (simp add: is_named_call_def del: field.simps)
      qed
      from traversal_ok_cons[OF ih True] None True show ?thesis
        by (simp add: checkNode_JObj del: checkNode.simps(1))
    qed
  qed
next
  case (2 xs s)
  from traversal_ok_cons[OF 2 name_is_text_array] show ?case by simp
next
  case (5 v vs s)
  from traversal_ok_seq[of "subnodes v" "violations v" s "visit_value v s", OF "5.IH"(1) "5.IH"(2)]
  show ?case by simp
next
  case (7 p ps s)
  from traversal_ok_seq[of "subnodes (snd p)" "violations (snd p)" s "visit_value (snd p) s",
      OF "7.IH"(1) "7.IH"(2)]
  show ?case by simp
next
  case (8 ys s)
  from traversal_ok_cons[OF 8 name_is_text_array] show ?case by simp
next
  case (12 y ys s)
  from traversal_ok_seq[of "subnodes y" "violations y" s "checkNode y s", OF "12.IH"(1) "12.IH"(2)]
  show ?case by simp
qed (simp_all add: traversal_ok_def report_Nil name_is_text_def is_named_call_def)

lemma violations_subnodes:
  "set (violations v) \<subseteq> {r. \<exists>n \<in> set (subnodes v). violation n = Some r}"
  "set (violations_list vs) \<subseteq> {r. \<exists>n \<in> set (subnodes_list vs). violation n = Some r}"
  "set (violations_props ps) \<subseteq> {r. \<exists>n \<in> set (subnodes_props ps). violation n = Some r}"
proof (induction v and vs and ps rule: violations_violations_list_violations_props.induct)
  case (2 ps)
  then show ?case by (cases "violation (JObj ps)") auto
qed auto

lemma violation_leaf:
  "violation JUndefined = None" "violation JNull = None" "violation (JBool b) = None"
  "violation (JNum x) = None" "violation (JStr t) = None" "violation (JArr xs) = None"
  by (simp_all add: violation_def is_write_stmt_def is_dangerous_call_def)

lemma violation_found:
  "n \<in> set (subnodes v) \<Longrightarrow> violation n \<noteq> None \<Longrightarrow> violations v \<noteq> []"
  "n \<in> set (subnodes_list vs) \<Longrightarrow> violation n \<noteq> None \<Longrightarrow> violations_list vs \<noteq> []"
  "n \<in> set (subnodes_props ps) \<Longrightarrow> violation n \<noteq> None \<Longrightarrow> violations_props ps \<noteq> []"
proof (induction v and vs and ps rule: violations_violations_list_violations_props.induct)
  case (2 ps)
  then show ?case by (cases "violation (JObj ps)") auto
qed (auto simp: violation_leaf)

lemma validate_cases:
  assumes "parse sql = Inr cst"
  shows "validateReadOnlyQuery parse sql = last_violation_verdict cst \<or>
         (\<not> names_are_text cst \<and> validateReadOnlyQuery parse sql = type_error_verdict)"
proof (cases "checkNode cst init_vstate")
  case (Inl e)
  with checkNode_traversal(1)[of cst init_vstate]
  have "e = toLowerCase_TypeError" and "\<not> names_are_text cst"
    by (simp_all add: traversal_ok_def names_are_text_def)
  with Inl assms show ?thesis
    by (simp add: validateReadOnlyQuery_def type_error_verdict_def)
next
  case (Inr s')
  with checkNode_traversal(1)[of cst init_vstate]
  have "s' = report (violations cst) init_vstate"
    by (simp add: traversal_ok_def)
  with Inr assms show ?thesis
    by (simp add: validateReadOnlyQuery_def last_violation_verdict_def report_def init_vstate_def)
qed

lemma validate_text_names:
  assumes "parse sql = Inr cst" and "names_are_text cst"
  shows "validateReadOnlyQuery parse sql = last_violation_verdict cst"
  using validate_cases[of parse sql cst] assms by blast

lemma contains_violation:
  assumes "contains_write_stmt cst \<or> contains_dangerous_call cst"
  shows "violations cst \<noteq> []"
proof -
  from assms obtain n where "n \<in> set (subnodes cst)" and "violation n \<noteq> None"
    by (auto simp: contains_write_stmt_def contains_dangerous_call_def list_ex_iff violation_def)
  then show ?thesis by (rule violation_found(1))
qed

section \<open>Trees of the parser\<close>

lemma parser_tree_names: "parser_tree cst \<Longrightarrow> names_are_text cst"
  by (auto simp: parser_tree_def names_are_text_def list_all_iff list_ex_iff name_is_text_def
      is_named_call_def is_function_call_node_def)

lemma parser_tree_no_call: "parser_tree cst \<Longrightarrow> \<not> contains_dangerous_call cst"
  by (auto simp: parser_tree_def contains_dangerous_call_def list_ex_iff is_dangerous_call_def
      is_function_call_node_def)

lemma violation_rejected:
  assumes "parse sql = Inr cst" and "contains_write_stmt cst \<or> contains_dangerous_call cst"
  shows "\<not> isValid (validateReadOnlyQuery parse sql)"
proof -
  have "violations cst \<noteq> []"
    using assms(2) by (rule contains_violation)
  then have "\<not> isValid (last_violation_verdict cst)"
    by (simp add: last_violation_verdict_def)
  with validate_cases[of parse sql cst] assms(1) show ?thesis
    by (auto simp: type_error_verdict_def)
qed

lemma write_reason_reported:
  assumes "parse sql = Inr cst" and "contains_write_stmt cst"
    and tn: "names_are_text cst" and nd: "\<not> contains_dangerous_call cst"
  shows "error (validateReadOnlyQuery parse sql) \<in> Some ` set write_reasons"
proof -
  have ne: "violations cst \<noteq> []"
    using assms(2) contains_violation by blast
  then have "last (violations cst) \<in> set (violations cst)"
    by simp
  with violations_subnodes(1)[of cst] obtain n
    where n: "n \<in> set (subnodes cst)" and v: "violation n = Some (last (violations cst))"
    by auto
  from n nd have "\<not> is_dangerous_call n"
    by (auto simp: contains_dangerous_call_def list_ex_iff)
  with v have w: "is_write_stmt n"
    and r: "last (violations cst) = ''Write operation not allowed: '' @ type_text n"
    by (auto simp: violation_def split: if_splits)
  from w have "type_text n \<in> set write_stmt_types"
    by (auto simp: is_write_stmt_def type_text_def simp del: field.simps split: jsval.splits)
  with r have "last (violations cst) \<in> set write_reasons"
    by (simp add: write_reasons_def)
  with validate_text_names[of parse sql cst] assms(1) tn ne show ?thesis
    by (simp add: last_violation_verdict_def)
qed


section \<open>Evaluation of the sample inputs\<close>

lemmas tree_defs = program_def select_from_def select_only_def func_call_def ident_def
  list_expr_def paren_expr_def all_columns_def string_literal_def number_literal_def
  insert_sample_def delete_sample_def count_tree_def missing_tree_def delete_tree_def
  load_tree_def insert_delete_tree_def

lemmas query_defs = count_query_def missing_query_def delete_query_def load_query_def
  insert_delete_query_def malformed_query_def quoted_def

lemmas node_defs = is_write_stmt_def is_dangerous_call_def is_named_call_def name_is_text_def
  is_function_call_node_def violation_def callee_def type_text_def toLowerCase_def
  lower_char_def write_stmt_types_def dangerousFunctions_def

lemmas validate_defs = validateReadOnlyQuery_def sample_parse_def init_vstate_def

section \<open>Properties of the validator\<close>

text \<open>
  C1. When the tree that the parser returns for a statement text contains, at any depth, a
  node whose type is one of the eight write and schema statements, the validator answers
  \<open>isValid = False\<close> with a reason that names a write operation, whatever the letter case
  of the text.
\<close>

theorem write_statement_rejected:
  assumes "parse sql = Inr cst" and "parser_tree cst" and "contains_write_stmt cst"
  shows "\<not> isValid (validateReadOnlyQuery parse sql) \<and>
         error (validateReadOnlyQuery parse sql) \<in> Some ` set write_reasons"
proof -
  have "\<not> isValid (validateReadOnlyQuery parse sql)"
    using assms(1,3) by (simp add: violation_rejected)
  moreover have "error (validateReadOnlyQuery parse sql) \<in> Some ` set write_reasons"
    using assms(1,3) parser_tree_names[OF assms(2)] parser_tree_no_call[OF assms(2)]
    by (rule write_reason_reported)
  ultimately show ?thesis by simp
qed

theorem write_statement_rejected_witness:
  "sample_parse delete_query = Inr delete_tree \<and> parser_tree delete_tree \<and>
   contains_write_stmt delete_tree \<and>
   \<not> isValid (validateReadOnlyQuery sample_parse delete_query) \<and>
   error (validateReadOnlyQuery sample_parse delete_query) =
     Some ''Write operation not allowed: delete_stmt'' \<and>
   ''Write operation not allowed: delete_stmt'' \<in> set write_reasons"
proof -
  have h1: "sample_parse delete_query = Inr delete_tree"
    by (simp add: sample_parse_def query_defs)
  have h2: "parser_tree delete_tree"
    by (simp add: parser_tree_def tree_defs node_defs)
  have h3: "contains_write_stmt delete_tree"
    by (simp add: contains_write_stmt_def tree_defs node_defs)
  have h4: "error (validateReadOnlyQuery sample_parse delete_query) =
     Some ''Write operation not allowed: delete_stmt''"
    by (simp add: validate_defs query_defs tree_defs node_defs)
  from write_statement_rejected[of sample_parse delete_query delete_tree] h1 h2 h3 h4
  show ?thesis by auto
qed

text \<open>
  C3 (the code departs from the claim). The statement \<^verbatim>\<open>SELECT load_extension('x')\<close> calls
  a forbidden function, and the validator accepts it: the parser gives the call the type
  \<^verbatim>\<open>func_call\<close> and an identifier node as its name, so the test of line 74, for the type
  \<^verbatim>\<open>function_call\<close> and a name with \<^verbatim>\<open>toLowerCase\<close>, holds on no node of the tree.
\<close>

theorem load_extension_accepted:
  "sample_parse load_query = Inr load_tree \<and> parser_tree load_tree \<and>
   func_call ''load_extension'' [string_literal ''x''] \<in> set (subnodes load_tree) \<and>
   ''load_extension'' \<in> set dangerousFunctions \<and>
   validateReadOnlyQuery sample_parse load_query = \<lparr>isValid = True, error = None\<rparr>"
  by (simp add: validate_defs query_defs tree_defs node_defs parser_tree_def)



text \<open>
  C9 (amended). The traversal does not stop at the first violation: it leaves out the
  children of a violating node and goes on with the rest of the tree, and each violation
  replaces the reason of the one before. When the names of all function calls are strings,
  the verdict reports the violation met last in the order of the traversal; in every case
  the verdict is that one or the parse error of the TypeError.
\<close>

theorem last_violation_reported:
  assumes "parse sql = Inr cst"
  shows "(names_are_text cst \<longrightarrow> validateReadOnlyQuery parse sql = last_violation_verdict cst) \<and>
         (validateReadOnlyQuery parse sql = last_violation_verdict cst \<or>
          validateReadOnlyQuery parse sql = type_error_verdict)"
  using validate_cases[of parse sql cst] assms by blast

theorem last_violation_reported_witness:
  "sample_parse insert_delete_query = Inr insert_delete_tree \<and>
   names_are_text insert_delete_tree \<and>
   last_violation_verdict insert_delete_tree =
     \<lparr>isValid = False, error = Some ''Write operation not allowed: delete_stmt''\<rparr> \<and>
   validateReadOnlyQuery sample_parse insert_delete_query =
     \<lparr>isValid = False, error = Some ''Write operation not allowed: delete_stmt''\<rparr>"
proof -
  have h1: "sample_parse insert_delete_query = Inr insert_delete_tree"
    by (simp add: sample_parse_def query_defs)
  have h2: "names_are_text insert_delete_tree"
    by (simp add: names_are_text_def tree_defs node_defs)
  have h3: "last_violation_verdict insert_delete_tree =
     \<lparr>isValid = False, error = Some ''Write operation not allowed: delete_stmt''\<rparr>"
    by (simp add: last_violation_verdict_def tree_defs node_defs)
  from last_violation_reported[of sample_parse insert_delete_query insert_delete_tree] h1 h2 h3
  show ?thesis by simp
qed

text \<open>
  The claim as stated fails on two statements, an insert and a delete: the traversal meets
  the insert first and reports the delete.
\<close>

theorem first_violation_counterexample:
  "sample_parse insert_delete_query = Inr insert_delete_tree \<and>
   violations insert_delete_tree =
     [''Write operation not allowed: insert_stmt'', ''Write operation not allowed: delete_stmt''] \<and>
   validateReadOnlyQuery sample_parse insert_delete_query =
     \<lparr>isValid = False, error = Some ''Write operation not allowed: delete_stmt''\<rparr>"
  by (simp add: validate_defs query_defs tree_defs node_defs)

section \<open>The branches of the handler\<close>

lemma run_query_ledger: "ledger (snd (run_query sv data w)) = ledger w"
  by (simp add: run_query_def split: prod.splits option.splits sum.splits)

lemma run_query_charges:
  "filter is_charge (calls (snd (run_query sv data w))) = filter is_charge (calls w)"
  by (simp add: run_query_def split: prod.splits option.splits sum.splits)

lemma run_query_prefix:
  "\<exists>rest. calls (snd (run_query sv data w)) = calls w @ rest"
  by (simp add: run_query_def split: prod.splits option.splits sum.splits)

lemma fetch_other_route:
  "\<not> (pathname req = ''/query/shared'' \<and> http_method req = ''POST'') \<Longrightarrow>
   fetch sv u req w = (welcome_page, w)"
  by (auto simp: fetch_def)

lemma fetch_no_token:
  "pathname req = ''/query/shared'' \<Longrightarrow> http_method req = ''POST'' \<Longrightarrow>
   \<not> token_present (access_token u) \<Longrightarrow>
   fetch sv u req w =
     (respond_json 401 (JObj [(''error'', JStr ''Authentication required'')]), w)"
  by (simp add: fetch_def query_shared_def)

lemma fetch_body_throws:
  "pathname req = ''/query/shared'' \<Longrightarrow> http_method req = ''POST'' \<Longrightarrow>
   token_present (access_token u) \<Longrightarrow> json req = Inl e \<Longrightarrow>
   fetch sv u req w = (failure_response e, w\<lparr>calls := calls w @ [CallConsoleError e]\<rparr>)"
  by (simp add: fetch_def query_shared_def)

lemma fetch_sql_throws:
  "pathname req = ''/query/shared'' \<Longrightarrow> http_method req = ''POST'' \<Longrightarrow>
   token_present (access_token u) \<Longrightarrow> json req = Inr data \<Longrightarrow>
   get_prop data ''sql'' = Inl e \<Longrightarrow>
   fetch sv u req w = (failure_response e, w\<lparr>calls := calls w @ [CallConsoleError e]\<rparr>)"
  by (simp add: fetch_def query_shared_def)

lemma fetch_no_sql:
  "pathname req = ''/query/shared'' \<Longrightarrow> http_method req = ''POST'' \<Longrightarrow>
   token_present (access_token u) \<Longrightarrow> json req = Inr data \<Longrightarrow>
   get_prop data ''sql'' = Inr sql \<Longrightarrow> \<not> truthy sql \<Longrightarrow>
   fetch sv u req w =
     (respond_json 400 (JObj [(''error'', JStr ''SQL query is required'')]), w)"
  by (simp add: fetch_def query_shared_def)

lemma fetch_invalid:
  "accepted_body u req data sql \<Longrightarrow>
   \<not> isValid (validateReadOnlyQuery (parse_sql sv) sql) \<Longrightarrow>
   fetch sv u req w =
     (respond_json 400
        (JObj [(''error'', JStr ''Invalid query''),
               (''details'', text_or_undefined (error (validateReadOnlyQuery (parse_sql sv) sql)))]),
      w)"
  by (simp add: fetch_def query_shared_def accepted_body_def)

lemma fetch_valid:
  "accepted_body u req data sql \<Longrightarrow>
   isValid (validateReadOnlyQuery (parse_sql sv) sql) \<Longrightarrow>
   fetch sv u req w =
     (case charge_and_run sv u data w of
        (Inr r, w') \<Rightarrow> (r, w')
      | (Inl e, w') \<Rightarrow> (failure_response e, w'\<lparr>calls := calls w' @ [CallConsoleError e]\<rparr>))"
  by (simp add: fetch_def query_shared_def accepted_body_def)

lemma fetch_charge_throws:
  "accepted_body u req data sql \<Longrightarrow>
   isValid (validateReadOnlyQuery (parse_sql sv) sql) \<Longrightarrow>
   charge sv zero_point_one False (ledger w) = (Inl e, l1) \<Longrightarrow>
   fetch sv u req w =
     (failure_response e,
      w\<lparr>ledger := l1, calls := calls w @ [CallCharge zero_point_one False, CallConsoleError e]\<rparr>)"
  by (simp add: fetch_valid charge_and_run_def)

lemma fetch_not_charged:
  "accepted_body u req data sql \<Longrightarrow>
   isValid (validateReadOnlyQuery (parse_sql sv) sql) \<Longrightarrow>
   charge sv zero_point_one False (ledger w) = (Inr cr, l1) \<Longrightarrow> \<not> charged cr \<Longrightarrow>
   fetch sv u req w =
     (respond_json 402
        (JObj [(''error'', JStr ''Insufficient balance''),
               (''message'', text_or_undefined (message cr)),
               (''balance'', JNum (balance u))]),
      charged_world w l1)"
  by (simp add: fetch_valid charge_and_run_def charged_world_def)

lemma fetch_run_fails:
  "accepted_body u req data sql \<Longrightarrow>
   isValid (validateReadOnlyQuery (parse_sql sv) sql) \<Longrightarrow>
   charge sv zero_point_one False (ledger w) = (Inr cr, l1) \<Longrightarrow> charged cr \<Longrightarrow>
   run_query sv data (charged_world w l1) = (Inl e, w2) \<Longrightarrow>
   fetch sv u req w = (failure_response e, w2\<lparr>calls := calls w2 @ [CallConsoleError e]\<rparr>)"
  by (simp add: fetch_valid charge_and_run_def charged_world_def)

lemma fetch_success:
  "accepted_body u req data sql \<Longrightarrow>
   isValid (validateReadOnlyQuery (parse_sql sv) sql) \<Longrightarrow>
   charge sv zero_point_one False (ledger w) = (Inr cr, l1) \<Longrightarrow> charged cr \<Longrightarrow>
   run_query sv data (charged_world w l1) = (Inr c, w2) \<Longrightarrow>
   fetch sv u req w = (success_response c u, w2)"
  by (simp add: fetch_valid charge_and_run_def charged_world_def)


lemma get_prop_field: "get_prop data k = Inr v \<Longrightarrow> field data k = v"
  by (cases data) simp_all

lemma fetch_not_validated:
  assumes "\<not> (\<exists>data sql. accepted_body u req data sql \<and>
                isValid (validateReadOnlyQuery (parse_sql sv) sql))"
  shows "ledger (snd (fetch sv u req w)) = ledger w \<and> store (snd (fetch sv u req w)) = store w \<and>
         (calls (snd (fetch sv u req w)) = calls w \<or>
          (\<exists>e. calls (snd (fetch sv u req w)) = calls w @ [CallConsoleError e]))"
  using assms
  by (auto simp: fetch_def query_shared_def accepted_body_def split: sum.splits)

lemma fetch_charged_trace:
  assumes acc: "accepted_body u req data sql"
    and val: "isValid (validateReadOnlyQuery (parse_sql sv) sql)"
    and ch: "charge sv zero_point_one False (ledger w) = (res, l1)"
  shows "ledger (snd (fetch sv u req w)) = l1 \<and>
         (\<exists>rest. calls (snd (fetch sv u req w)) = calls w @ CallCharge zero_point_one False # rest \<and>
            \<not> list_ex is_charge rest \<and>
            (list_ex is_storage_call rest \<longrightarrow> (\<exists>cr. res = Inr cr \<and> charged cr)))"
proof (cases res)
  case (Inl e)
  with fetch_charge_throws[OF acc val] ch show ?thesis by simp
next
  case (Inr cr)
  show ?thesis
  proof (cases "charged cr")
    case False
    with fetch_not_charged[OF acc val] ch Inr show ?thesis
      by (simp add: charged_world_def)
  next
    case True
    obtain out w2 where rq: "run_query sv data (charged_world w l1) = (out, w2)"
      by (cases "run_query sv data (charged_world w l1)")
    from run_query_ledger[of sv data "charged_world w l1"] rq
    have l: "ledger w2 = l1" by (simp add: charged_world_def)
    from run_query_prefix[of sv data "charged_world w l1"] rq
    obtain rest where c: "calls w2 = calls w @ CallCharge zero_point_one False # rest"
      by (auto simp: charged_world_def)
    from run_query_charges[of sv data "charged_world w l1"] rq c
    have nc: "\<not> list_ex is_charge rest"
      by (simp add: charged_world_def list_ex_iff filter_empty_conv)
    show ?thesis
    proof (cases out)
      case (Inl e)
      with fetch_run_fails[OF acc val _ True] ch Inr rq
      have "fetch sv u req w = (failure_response e, w2\<lparr>calls := calls w2 @ [CallConsoleError e]\<rparr>)"
        by simp
      with l c nc Inr True show ?thesis by simp
    next
      case out: (Inr cu)
      with fetch_success[OF acc val _ True] ch Inr rq
      have "fetch sv u req w = (success_response cu u, w2)"
        by simp
      with l c nc Inr True show ?thesis by simp
    qed
  qed
qed

section \<open>Values of the arithmetic\<close>

text \<open>
  The literal \<^verbatim>\<open>0.1\<close> is not one tenth, and the doubles printed as 99.9 and 49.9 are the
  results of \<^verbatim>\<open>100 - 0.1\<close> and \<^verbatim>\<open>50 - 0.1\<close>.
\<close>

lemma zero_point_one_value: "zero_point_one = 3602879701896397 / 36028797018963968"
  by code_simp

lemma minus_100:
  "js_minus 100 (3602879701896397 / 36028797018963968) = 3514918771674317 / 35184372088832"
  by code_simp

lemma minus_50:
  "js_minus 50 (3602879701896397 / 36028797018963968) = 7022800668930867 / 140737488355328"
  by code_simp

text \<open>
  \<^verbatim>\<open>0.3 - 0.1\<close> is the double printed as 0.19999999999999998, and \<^verbatim>\<open>99.9 - 0.1\<close> the one
  printed as 99.80000000000001.
\<close>

lemma rounded_differences:
  "js_minus (round_double (3 / 10)) zero_point_one = 7205759403792793 / 36028797018963968"
  "js_minus (round_double (999 / 10)) zero_point_one = 1755700167232717 / 17592186044416"
  "round_double (2 / 10) = 3602879701896397 / 18014398509481984"
  "round_double (998 / 10) = 7022800668930867 / 70368744177664"
  by code_simp+

lemmas number_values = zero_point_one_value minus_100 minus_50

lemmas handler_defs = fetch_def query_shared_def charge_and_run_def run_query_def
  spread_params_def token_present_def respond_json_def failure_response_def
  success_response_def result_json_def text_or_undefined_def

lemmas sample_defs = sample_services_def sample_user_def sample_world_def stale_world_def
  poor_world_def post_def query_request_def empty_request_def malformed_request_def
  null_request_def sample_charge_def sample_createClient_def sample_exec_def
  number_values

lemma valid_count: "isValid (validateReadOnlyQuery sample_parse count_query)"
  by (simp add: validate_defs query_defs tree_defs node_defs)

lemma valid_missing: "isValid (validateReadOnlyQuery sample_parse missing_query)"
  by (simp add: validate_defs query_defs tree_defs node_defs)

lemma invalid_delete: "\<not> isValid (validateReadOnlyQuery sample_parse delete_query)"
  by (simp add: validate_defs query_defs tree_defs node_defs)

lemma accepted_sample:
  "sql = count_query \<or> sql = missing_query \<or> sql = delete_query \<or> sql = malformed_query \<Longrightarrow>
   accepted_body sample_user (query_request sql) (JObj [(''sql'', sql)]) sql"
  by (auto simp: accepted_body_def sample_defs token_present_def query_defs)

lemma fetch_count:
  "fetch sample_services sample_user (query_request count_query) sample_world =
     (\<lparr>status = 200,
       headers = [(''Content-Type'', ''application/json''), (''Access-Control-Allow-Origin'', ''*'')],
       body = Json (JObj [(''result'',
                JObj [(''columns'', JArr [JStr ''total'']),
                      (''rows'', JArr [JArr [JNum 5]]),
                      (''meta'',
                       JObj [(''rows_read'', JNum 5), (''rows_written'', JNum 0),
                             (''charge_applied'', JNum zero_point_one),
                             (''remaining_balance'', JNum (js_minus 100 zero_point_one))])])])\<rparr>,
      \<lparr>ledger = js_minus 100 zero_point_one, store = 5,
       calls = [CallCharge zero_point_one False, CallCreateClient, CallExec count_query []]\<rparr>)"
  by (simp add: handler_defs sample_defs valid_count) (simp add: count_query_def)

lemma charge_sample:
  "charge sample_services zero_point_one False (ledger sample_world) =
     (Inr \<lparr>charged = True, message = None, balanceAfter = js_minus 100 zero_point_one\<rparr>,
      js_minus 100 zero_point_one)"
  by (simp add: sample_defs)

lemma run_count:
  "run_query sample_services (JObj [(''sql'', count_query)]) (charged_world sample_world (js_minus 100 zero_point_one)) =
     (Inr \<lparr>columnNames = [''total''], raw = [JArr [JNum 5]], rowsRead = 5, rowsWritten = 0\<rparr>,
      \<lparr>ledger = js_minus 100 zero_point_one, store = 5,
       calls = [CallCharge zero_point_one False, CallCreateClient, CallExec count_query []]\<rparr>)"
  by (simp add: run_query_def charged_world_def spread_params_def sample_defs)

lemma run_missing:
  "run_query sample_services (JObj [(''sql'', missing_query)])
     (charged_world sample_world (js_minus 100 zero_point_one)) =
     (Inl ''no such table: missing'',
      \<lparr>ledger = js_minus 100 zero_point_one, store = 5,
       calls = [CallCharge zero_point_one False, CallCreateClient, CallExec missing_query []]\<rparr>)"
  by (simp add: run_query_def charged_world_def spread_params_def sample_defs)
    (simp add: query_defs)

lemma charge_stale:
  "charge sample_services zero_point_one False (ledger stale_world) =
     (Inr \<lparr>charged = True, message = None, balanceAfter = js_minus 50 zero_point_one\<rparr>,
      js_minus 50 zero_point_one)"
  by (simp add: sample_defs)

lemma run_count_stale:
  "run_query sample_services (JObj [(''sql'', count_query)]) (charged_world stale_world (js_minus 50 zero_point_one)) =
     (Inr \<lparr>columnNames = [''total''], raw = [JArr [JNum 5]], rowsRead = 5, rowsWritten = 0\<rparr>,
      \<lparr>ledger = js_minus 50 zero_point_one, store = 5,
       calls = [CallCharge zero_point_one False, CallCreateClient, CallExec count_query []]\<rparr>)"
  by (simp add: run_query_def charged_world_def spread_params_def sample_defs)

section \<open>Properties of the handler\<close>

text \<open>
  C2. On a request that starts with an empty list of calls: \<^verbatim>\<open>charge\<close> is called only when
  the validator has answered \<open>isValid = True\<close> on \<^verbatim>\<open>data.sql\<close>; the storage client is
  created and executes only when \<^verbatim>\<open>charge\<close> has returned \<open>charged = True\<close>, and the
  charge is the first call; a statement that fails the validation is answered with status
  400 and the world is unchanged; a charge that returns \<open>charged = False\<close> is answered with status 402,
  the charge is the only call and the store is unchanged.
\<close>

theorem charge_after_validation_exec_after_charge:
  assumes "calls w = []"
  shows "(list_ex is_charge (calls (snd (fetch sv u req w))) \<longrightarrow>
            (\<exists>data. json req = Inr data \<and>
               isValid (validateReadOnlyQuery (parse_sql sv) (field data ''sql'')))) \<and>
         (list_ex is_storage_call (calls (snd (fetch sv u req w))) \<longrightarrow>
            (\<exists>cr l1 rest. charge sv zero_point_one False (ledger w) = (Inr cr, l1) \<and> charged cr \<and>
               calls (snd (fetch sv u req w)) = CallCharge zero_point_one False # rest)) \<and>
         (accepted_body u req data sql \<and>
          \<not> isValid (validateReadOnlyQuery (parse_sql sv) sql) \<longrightarrow>
            status (fst (fetch sv u req w)) = 400 \<and> snd (fetch sv u req w) = w) \<and>
         (accepted_body u req data sql \<and>
          isValid (validateReadOnlyQuery (parse_sql sv) sql) \<and>
          charge sv zero_point_one False (ledger w) = (Inr cr, l1) \<and> \<not> charged cr \<longrightarrow>
            status (fst (fetch sv u req w)) = 402 \<and>
            calls (snd (fetch sv u req w)) = [CallCharge zero_point_one False] \<and>
            store (snd (fetch sv u req w)) = store w)"
proof -
  let ?w' = "snd (fetch sv u req w)"
  have traced: "list_ex is_charge (calls ?w') \<or> list_ex is_storage_call (calls ?w') \<Longrightarrow>
      \<exists>d q. accepted_body u req d q \<and> isValid (validateReadOnlyQuery (parse_sql sv) q)"
  proof (rule ccontr)
    assume some: "list_ex is_charge (calls ?w') \<or> list_ex is_storage_call (calls ?w')"
      and "\<not> (\<exists>d q. accepted_body u req d q \<and> isValid (validateReadOnlyQuery (parse_sql sv) q))"
    from fetch_not_validated[OF this(2), of w] assms
    have "calls ?w' = [] \<or> (\<exists>e. calls ?w' = [CallConsoleError e])" by simp
    with some show False by auto
  qed
  have p1: "\<exists>d. json req = Inr d \<and>
               isValid (validateReadOnlyQuery (parse_sql sv) (field d ''sql''))"
    if "list_ex is_charge (calls ?w')"
  proof -
    from traced that obtain d q where a: "accepted_body u req d q"
      and v: "isValid (validateReadOnlyQuery (parse_sql sv) q)" by blast
    from a have "json req = Inr d" and "field d ''sql'' = q"
      by (simp_all add: accepted_body_def get_prop_field)
    with v show ?thesis by blast
  qed
  have p2: "\<exists>c l r. charge sv zero_point_one False (ledger w) = (Inr c, l) \<and> charged c \<and>
               calls ?w' = CallCharge zero_point_one False # r"
    if ex: "list_ex is_storage_call (calls ?w')"
  proof -
    from traced that obtain d q where a: "accepted_body u req d q"
      and v: "isValid (validateReadOnlyQuery (parse_sql sv) q)" by blast
    obtain res l where ch: "charge sv zero_point_one False (ledger w) = (res, l)"
      by (cases "charge sv zero_point_one False (ledger w)")
    from fetch_charged_trace[OF a v ch] assms obtain rest
      where c: "calls ?w' = CallCharge zero_point_one False # rest"
        and e: "list_ex is_storage_call rest \<longrightarrow> (\<exists>c. res = Inr c \<and> charged c)"
      by auto
    from ex c have "list_ex is_storage_call rest" by simp
    with e ch c show ?thesis by blast
  qed
  have p3: "status (fst (fetch sv u req w)) = 400 \<and> ?w' = w"
    if "accepted_body u req data sql" "\<not> isValid (validateReadOnlyQuery (parse_sql sv) sql)"
    using fetch_invalid[OF that] by (simp add: respond_json_def)
  have p4: "status (fst (fetch sv u req w)) = 402 \<and> calls ?w' = [CallCharge zero_point_one False] \<and>
            store ?w' = store w"
    if "accepted_body u req data sql" "isValid (validateReadOnlyQuery (parse_sql sv) sql)"
      "charge sv zero_point_one False (ledger w) = (Inr cr, l1)" "\<not> charged cr"
    using fetch_not_charged[OF that] assms by (simp add: respond_json_def charged_world_def)
  from p1 p2 p3 p4 show ?thesis by blast
qed

theorem charge_after_validation_exec_after_charge_witness:
  "calls sample_world = [] \<and>
   list_ex is_charge
     (calls (snd (fetch sample_services sample_user (query_request count_query) sample_world))) \<and>
   list_ex is_storage_call
     (calls (snd (fetch sample_services sample_user (query_request count_query) sample_world))) \<and>
   (\<exists>data. json (query_request count_query) = Inr data \<and>
      isValid (validateReadOnlyQuery (parse_sql sample_services) (field data ''sql''))) \<and>
   (\<exists>cr l1 rest.
      charge sample_services zero_point_one False (ledger sample_world) = (Inr cr, l1) \<and> charged cr \<and>
      calls (snd (fetch sample_services sample_user (query_request count_query) sample_world)) =
        CallCharge zero_point_one False # rest) \<and>
   accepted_body sample_user (query_request delete_query) (JObj [(''sql'', delete_query)])
     delete_query \<and>
   \<not> isValid (validateReadOnlyQuery (parse_sql sample_services) delete_query) \<and>
   status (fst (fetch sample_services sample_user (query_request delete_query) sample_world)) = 400 \<and>
   snd (fetch sample_services sample_user (query_request delete_query) sample_world) =
     sample_world \<and>
   calls poor_world = [] \<and>
   accepted_body sample_user (query_request count_query) (JObj [(''sql'', count_query)])
     count_query \<and>
   isValid (validateReadOnlyQuery (parse_sql sample_services) count_query) \<and>
   charge sample_services zero_point_one False (ledger poor_world) =
     (Inr \<lparr>charged = False, message = Some ''Insufficient balance'', balanceAfter = 0\<rparr>, 0) \<and>
   status (fst (fetch sample_services sample_user (query_request count_query) poor_world)) = 402 \<and>
   calls (snd (fetch sample_services sample_user (query_request count_query) poor_world)) =
     [CallCharge zero_point_one False] \<and>
   store (snd (fetch sample_services sample_user (query_request count_query) poor_world)) =
     store poor_world"
proof -
  have w0: "calls sample_world = []" and w1: "calls poor_world = []"
    by (simp_all add: sample_defs)
  have ps: "parse_sql sample_services = sample_parse"
    by (simp add: sample_services_def)
  have c: "list_ex is_charge
     (calls (snd (fetch sample_services sample_user (query_request count_query) sample_world)))"
    and e: "list_ex is_storage_call
     (calls (snd (fetch sample_services sample_user (query_request count_query) sample_world)))"
    by (simp_all add: fetch_count)
  have a1: "accepted_body sample_user (query_request delete_query) (JObj [(''sql'', delete_query)])
     delete_query"
    and a2: "accepted_body sample_user (query_request count_query) (JObj [(''sql'', count_query)])
     count_query"
    by (simp_all add: accepted_sample)
  have i: "\<not> isValid (validateReadOnlyQuery (parse_sql sample_services) delete_query)"
    and v: "isValid (validateReadOnlyQuery (parse_sql sample_services) count_query)"
    by (simp_all add: ps invalid_delete valid_count)
  have ch: "charge sample_services zero_point_one False (ledger poor_world) =
     (Inr \<lparr>charged = False, message = Some ''Insufficient balance'', balanceAfter = 0\<rparr>, 0)"
    by (simp add: sample_defs)
  note t1 = charge_after_validation_exec_after_charge[OF w0,
      where sv = sample_services and u = sample_user and req = "query_request count_query"]
  note t2 = charge_after_validation_exec_after_charge[OF w0,
      where sv = sample_services and u = sample_user and req = "query_request delete_query"
        and data = "JObj [(''sql'', delete_query)]" and sql = delete_query]
  note t3 = charge_after_validation_exec_after_charge[OF w1,
      where sv = sample_services and u = sample_user and req = "query_request count_query"
        and data = "JObj [(''sql'', count_query)]" and sql = count_query
        and cr = "\<lparr>charged = False, message = Some ''Insufficient balance'', balanceAfter = 0\<rparr>"
        and ?l1.0 = 0]
  from t1 c e have r1: "(\<exists>data. json (query_request count_query) = Inr data \<and>
      isValid (validateReadOnlyQuery (parse_sql sample_services) (field data ''sql'')))"
    and r2: "(\<exists>cr l1 rest.
      charge sample_services zero_point_one False (ledger sample_world) = (Inr cr, l1) \<and> charged cr \<and>
      calls (snd (fetch sample_services sample_user (query_request count_query) sample_world)) =
        CallCharge zero_point_one False # rest)"
    by blast+
  from t2 a1 i
  have r3: "status (fst (fetch sample_services sample_user (query_request delete_query) sample_world)) = 400 \<and>
   snd (fetch sample_services sample_user (query_request delete_query) sample_world) = sample_world"
    by blast
  from t3 a2 v ch
  have r4: "status (fst (fetch sample_services sample_user (query_request count_query) poor_world)) = 402 \<and>
   calls (snd (fetch sample_services sample_user (query_request count_query) poor_world)) =
     [CallCharge zero_point_one False] \<and>
   store (snd (fetch sample_services sample_user (query_request count_query) poor_world)) =
     store poor_world"
    by simp
  from w0 w1 c e r1 r2 a1 a2 i v ch r3 r4 show ?thesis by blast
qed

text \<open>
  C4. When the parser throws on the statement, the validator answers \<open>isValid = False\<close>
  with the reason \<^verbatim>\<open>SQL parsing error:\<close> followed by the message of the parser; a request
  that carries this statement leaves the world as it was, so no charge is made, and once
  it has passed the checks before the validation it is answered with status 400, error
  \<^verbatim>\<open>Invalid query\<close> and that reason.
\<close>

theorem parse_failure_fails_closed:
  assumes "parse_sql sv sql = Inl msg"
  shows "validateReadOnlyQuery (parse_sql sv) sql =
           \<lparr>isValid = False, error = Some (''SQL parsing error: '' @ msg)\<rparr> \<and>
         (json req = Inr data \<and> get_prop data ''sql'' = Inr sql \<longrightarrow>
            snd (fetch sv u req w) = w) \<and>
         (accepted_body u req data sql \<longrightarrow>
            fst (fetch sv u req w) =
              respond_json 400
                (JObj [(''error'', JStr ''Invalid query''),
                       (''details'', JStr (''SQL parsing error: '' @ msg))]))"
proof -
  have v: "validateReadOnlyQuery (parse_sql sv) sql =
           \<lparr>isValid = False, error = Some (''SQL parsing error: '' @ msg)\<rparr>"
    using assms by (simp add: validateReadOnlyQuery_def)
  have "snd (fetch sv u req w) = w" if "json req = Inr data" "get_prop data ''sql'' = Inr sql"
    using that v by (simp add: fetch_def query_shared_def)
  moreover have "fst (fetch sv u req w) =
              respond_json 400
                (JObj [(''error'', JStr ''Invalid query''),
                       (''details'', JStr (''SQL parsing error: '' @ msg))])"
    if "accepted_body u req data sql"
    using fetch_invalid[OF that, of sv w] v by (simp add: text_or_undefined_def)
  ultimately show ?thesis using v by blast
qed

theorem parse_failure_fails_closed_witness:
  "parse_sql sample_services malformed_query = Inl ''Syntax error: Unexpected input'' \<and>
   json (query_request malformed_query) = Inr (JObj [(''sql'', malformed_query)]) \<and>
   get_prop (JObj [(''sql'', malformed_query)]) ''sql'' = Inr malformed_query \<and>
   accepted_body sample_user (query_request malformed_query) (JObj [(''sql'', malformed_query)])
     malformed_query \<and>
   validateReadOnlyQuery (parse_sql sample_services) malformed_query =
     \<lparr>isValid = False, error = Some ''SQL parsing error: Syntax error: Unexpected input''\<rparr> \<and>
   snd (fetch sample_services sample_user (query_request malformed_query) sample_world) =
     sample_world \<and>
   fst (fetch sample_services sample_user (query_request malformed_query) sample_world) =
     respond_json 400
       (JObj [(''error'', JStr ''Invalid query''),
              (''details'', JStr ''SQL parsing error: Syntax error: Unexpected input'')])"
proof -
  have h1: "parse_sql sample_services malformed_query = Inl ''Syntax error: Unexpected input''"
    by (simp add: sample_services_def sample_parse_def query_defs)
  have h2: "json (query_request malformed_query) = Inr (JObj [(''sql'', malformed_query)])"
    by (simp add: sample_defs)
  have h3: "get_prop (JObj [(''sql'', malformed_query)]) ''sql'' = Inr malformed_query"
    by simp
  have h4: "accepted_body sample_user (query_request malformed_query)
     (JObj [(''sql'', malformed_query)]) malformed_query"
    by (simp add: accepted_sample)
  from parse_failure_fails_closed[OF h1, where req = "query_request malformed_query"
      and data = "JObj [(''sql'', malformed_query)]" and u = sample_user and w = sample_world]
    h1 h2 h3 h4
  show ?thesis by simp
qed

text \<open>
  C6 (amended). An authenticated POST to the query route whose body is a JSON value other
  than \<^verbatim>\<open>null\<close> in which \<^verbatim>\<open>sql\<close> is absent or falsy is answered with status 400 and
  the error \<^verbatim>\<open>SQL query is required\<close>, and no collaborator is called.
\<close>

theorem missing_sql_is_bad_request:
  assumes "pathname req = ''/query/shared''" and "http_method req = ''POST''"
    and "token_present (access_token u)" and "json req = Inr data"
    and "get_prop data ''sql'' = Inr sql" and "\<not> truthy sql"
  shows "fetch sv u req w =
           (respond_json 400 (JObj [(''error'', JStr ''SQL query is required'')]), w)"
  using assms by (rule fetch_no_sql)

theorem missing_sql_is_bad_request_witness:
  "pathname empty_request = ''/query/shared'' \<and> http_method empty_request = ''POST'' \<and>
   token_present (access_token sample_user) \<and> json empty_request = Inr (JObj []) \<and>
   get_prop (JObj []) ''sql'' = Inr JUndefined \<and> \<not> truthy JUndefined \<and>
   fetch sample_services sample_user empty_request sample_world =
     (respond_json 400 (JObj [(''error'', JStr ''SQL query is required'')]), sample_world)"
proof -
  have h1: "pathname empty_request = ''/query/shared''"
    and h2: "http_method empty_request = ''POST''"
    and h3: "token_present (access_token sample_user)"
    and h4: "json empty_request = Inr (JObj [])"
    by (simp_all add: sample_defs token_present_def)
  have h5: "get_prop (JObj []) ''sql'' = Inr JUndefined" and h6: "\<not> truthy JUndefined"
    by simp_all
  from missing_sql_is_bad_request[OF h1 h2 h3 h4 h5 h6, of sample_services sample_world]
    h1 h2 h3 h4 h5 h6
  show ?thesis by simp
qed

text \<open>
  The claim as stated fails on a body that is missing or is not JSON, on which
  \<^verbatim>\<open>request.json()\<close> throws, and on the body \<^verbatim>\<open>null\<close>, on which \<^verbatim>\<open>data.sql\<close> throws:
  both reach the \<^verbatim>\<open>catch\<close> block and are answered with status 500.
\<close>

theorem malformed_body_counterexample:
  "token_present (access_token sample_user) \<and>
   json malformed_request = Inl ''Unexpected end of JSON input'' \<and>
   fst (fetch sample_services sample_user malformed_request sample_world) =
     failure_response ''Unexpected end of JSON input'' \<and>
   status (fst (fetch sample_services sample_user malformed_request sample_world)) = 500 \<and>
   json null_request = Inr JNull \<and>
   status (fst (fetch sample_services sample_user null_request sample_world)) = 500"
  by (simp add: handler_defs sample_defs)

text \<open>
  C7. A request that passes the validation, the charge and the execution is answered with
  status 200 and the body \<^verbatim>\<open>{result: {columns, rows, meta: {rows_read, rows_written,
  charge_applied, remaining_balance}}}\<close>, where \<^verbatim>\<open>charge_applied\<close> is the fee, the
  literal \<^verbatim>\<open>0.1\<close> that was charged, and \<^verbatim>\<open>remaining_balance\<close> is the balance of the user
  record minus the fee, as the subtraction of doubles computes it.
\<close>

theorem success_envelope:
  assumes "accepted_body u req data sql"
    and "isValid (validateReadOnlyQuery (parse_sql sv) sql)"
    and "charge sv zero_point_one False (ledger w) = (Inr cr, l1)" and "charged cr"
    and "run_query sv data (charged_world w l1) = (Inr c, w2)"
  shows "fst (fetch sv u req w) =
           \<lparr>status = 200,
            headers = [(''Content-Type'', ''application/json''),
                       (''Access-Control-Allow-Origin'', ''*'')],
            body = Json (JObj [(''result'',
                     JObj [(''columns'', JArr (map JStr (columnNames c))),
                           (''rows'', JArr (raw c)),
                           (''meta'',
                            JObj [(''rows_read'', JNum (of_nat (rowsRead c))),
                                  (''rows_written'', JNum (of_nat (rowsWritten c))),
                                  (''charge_applied'', JNum zero_point_one),
                                  (''remaining_balance'', JNum (js_minus (balance u) zero_point_one))])])])\<rparr>"
  using fetch_success[OF assms] by (simp add: success_response_def result_json_def)

theorem success_envelope_witness:
  "accepted_body sample_user (query_request count_query) (JObj [(''sql'', count_query)])
     count_query \<and>
   isValid (validateReadOnlyQuery (parse_sql sample_services) count_query) \<and>
   charge sample_services zero_point_one False (ledger sample_world) =
     (Inr \<lparr>charged = True, message = None, balanceAfter = js_minus 100 zero_point_one\<rparr>,
      js_minus 100 zero_point_one) \<and>
   run_query sample_services (JObj [(''sql'', count_query)])
       (charged_world sample_world (js_minus 100 zero_point_one)) =
     (Inr \<lparr>columnNames = [''total''], raw = [JArr [JNum 5]], rowsRead = 5, rowsWritten = 0\<rparr>,
      \<lparr>ledger = js_minus 100 zero_point_one, store = 5,
       calls = [CallCharge zero_point_one False, CallCreateClient, CallExec count_query []]\<rparr>) \<and>
   balance sample_user = 100 \<and>
   fst (fetch sample_services sample_user (query_request count_query) sample_world) =
     \<lparr>status = 200,
      headers = [(''Content-Type'', ''application/json''), (''Access-Control-Allow-Origin'', ''*'')],
      body = Json (JObj [(''result'',
               JObj [(''columns'', JArr [JStr ''total'']),
                     (''rows'', JArr [JArr [JNum 5]]),
                     (''meta'',
                      JObj [(''rows_read'', JNum 5), (''rows_written'', JNum 0),
                            (''charge_applied'',
                             JNum (3602879701896397 / 36028797018963968)),
                            (''remaining_balance'',
                             JNum (3514918771674317 / 35184372088832))])])])\<rparr>"
proof -
  have a: "accepted_body sample_user (query_request count_query) (JObj [(''sql'', count_query)])
     count_query"
    by (simp add: accepted_sample)
  have v: "isValid (validateReadOnlyQuery (parse_sql sample_services) count_query)"
    by (simp add: sample_services_def valid_count)
  have c: "charged \<lparr>charged = True, message = None, balanceAfter = js_minus 100 zero_point_one\<rparr>"
    by simp
  have b: "balance sample_user = 100"
    by (simp add: sample_user_def)
  from success_envelope[OF a v charge_sample c run_count] a v charge_sample run_count b
  show ?thesis by (simp add: number_values)
qed

text \<open>
  C8. When the charge has succeeded and the execution then throws, the request is answered
  with status 500, the error \<^verbatim>\<open>Query execution failed\<close> and the message of the exception;
  the ledger stays as the charge left it, and the charge is the only call to the ledger
  that the request has added.
\<close>

theorem charge_stands_when_execution_fails:
  assumes "accepted_body u req data sql"
    and "isValid (validateReadOnlyQuery (parse_sql sv) sql)"
    and "charge sv zero_point_one False (ledger w) = (Inr cr, l1)" and "charged cr"
    and "run_query sv data (charged_world w l1) = (Inl e, w2)"
  shows "fst (fetch sv u req w) =
           respond_json 500
             (JObj [(''error'', JStr ''Query execution failed''), (''details'', JStr e)]) \<and>
         ledger (snd (fetch sv u req w)) = l1 \<and>
         filter is_charge (calls (snd (fetch sv u req w))) =
           filter is_charge (calls w) @ [CallCharge zero_point_one False]"
proof -
  from run_query_ledger[of sv data "charged_world w l1"] assms(5)
  have l: "ledger w2 = l1" by (simp add: charged_world_def)
  from run_query_charges[of sv data "charged_world w l1"] assms(5)
  have c: "filter is_charge (calls w2) = filter is_charge (calls w) @ [CallCharge zero_point_one False]"
    by (simp add: charged_world_def)
  from fetch_run_fails[OF assms] l c show ?thesis
    by (simp add: failure_response_def)
qed

theorem charge_stands_when_execution_fails_witness:
  "accepted_body sample_user (query_request missing_query) (JObj [(''sql'', missing_query)])
     missing_query \<and>
   isValid (validateReadOnlyQuery (parse_sql sample_services) missing_query) \<and>
   charge sample_services zero_point_one False (ledger sample_world) =
     (Inr \<lparr>charged = True, message = None, balanceAfter = js_minus 100 zero_point_one\<rparr>,
      js_minus 100 zero_point_one) \<and>
   run_query sample_services (JObj [(''sql'', missing_query)])
       (charged_world sample_world (js_minus 100 zero_point_one)) =
     (Inl ''no such table: missing'',
      \<lparr>ledger = js_minus 100 zero_point_one, store = 5,
       calls = [CallCharge zero_point_one False, CallCreateClient, CallExec missing_query []]\<rparr>) \<and>
   fst (fetch sample_services sample_user (query_request missing_query) sample_world) =
     respond_json 500
       (JObj [(''error'', JStr ''Query execution failed''),
              (''details'', JStr ''no such table: missing'')]) \<and>
   ledger sample_world = 100 \<and>
   ledger (snd (fetch sample_services sample_user (query_request missing_query) sample_world)) =
     js_minus 100 zero_point_one \<and>
   filter is_charge
     (calls (snd (fetch sample_services sample_user (query_request missing_query) sample_world))) =
     [CallCharge zero_point_one False]"
proof -
  have a: "accepted_body sample_user (query_request missing_query)
     (JObj [(''sql'', missing_query)]) missing_query"
    by (simp add: accepted_sample)
  have v: "isValid (validateReadOnlyQuery (parse_sql sample_services) missing_query)"
    by (simp add: sample_services_def valid_missing)
  have c: "charged \<lparr>charged = True, message = None, balanceAfter = js_minus 100 zero_point_one\<rparr>"
    by simp
  have w: "ledger sample_world = 100" "calls sample_world = []"
    by (simp_all add: sample_world_def)
  from charge_stands_when_execution_fails[OF a v charge_sample c run_missing]
    a v charge_sample run_missing w
  show ?thesis by simp
qed

text \<open>
  C10. In a response with status 200, \<^verbatim>\<open>meta.charge_applied\<close> is the literal \<^verbatim>\<open>0.1\<close> and
  \<^verbatim>\<open>meta.remaining_balance\<close> is the balance of the user record, read at the start of the
  request, minus that literal, as the subtraction of doubles computes it. Neither comes
  from the result of the charge: when the balance that the charge reports differs from
  that difference, \<^verbatim>\<open>remaining_balance\<close> differs from it.
\<close>

theorem remaining_balance_from_snapshot:
  assumes "accepted_body u req data sql"
    and "isValid (validateReadOnlyQuery (parse_sql sv) sql)"
    and "charge sv zero_point_one False (ledger w) = (Inr cr, l1)" and "charged cr"
    and "run_query sv data (charged_world w l1) = (Inr c, w2)"
  shows "field (field (field (body_json (fst (fetch sv u req w))) ''result'') ''meta'')
           ''charge_applied'' = JNum zero_point_one \<and>
         field (field (field (body_json (fst (fetch sv u req w))) ''result'') ''meta'')
           ''remaining_balance'' = JNum (js_minus (balance u) zero_point_one) \<and>
         (balanceAfter cr \<noteq> js_minus (balance u) zero_point_one \<longrightarrow>
            field (field (field (body_json (fst (fetch sv u req w))) ''result'') ''meta'')
              ''remaining_balance'' \<noteq> JNum (balanceAfter cr))"
  using fetch_success[OF assms]
  by (simp add: success_response_def result_json_def body_json_def)

theorem remaining_balance_from_snapshot_witness:
  "accepted_body sample_user (query_request count_query) (JObj [(''sql'', count_query)])
     count_query \<and>
   isValid (validateReadOnlyQuery (parse_sql sample_services) count_query) \<and>
   charge sample_services zero_point_one False (ledger stale_world) =
     (Inr \<lparr>charged = True, message = None, balanceAfter = js_minus 50 zero_point_one\<rparr>,
      js_minus 50 zero_point_one) \<and>
   run_query sample_services (JObj [(''sql'', count_query)])
       (charged_world stale_world (js_minus 50 zero_point_one)) =
     (Inr \<lparr>columnNames = [''total''], raw = [JArr [JNum 5]], rowsRead = 5, rowsWritten = 0\<rparr>,
      \<lparr>ledger = js_minus 50 zero_point_one, store = 5,
       calls = [CallCharge zero_point_one False, CallCreateClient, CallExec count_query []]\<rparr>) \<and>
   balance sample_user = 100 \<and>
   js_minus 50 zero_point_one = 7022800668930867 / 140737488355328 \<and>
   field (field (field (body_json
       (fst (fetch sample_services sample_user (query_request count_query) stale_world)))
     ''result'') ''meta'') ''charge_applied'' = JNum (3602879701896397 / 36028797018963968) \<and>
   field (field (field (body_json
       (fst (fetch sample_services sample_user (query_request count_query) stale_world)))
     ''result'') ''meta'') ''remaining_balance'' = JNum (3514918771674317 / 35184372088832) \<and>
   field (field (field (body_json
       (fst (fetch sample_services sample_user (query_request count_query) stale_world)))
     ''result'') ''meta'') ''remaining_balance'' \<noteq> JNum (js_minus 50 zero_point_one)"
proof -
  have a: "accepted_body sample_user (query_request count_query) (JObj [(''sql'', count_query)])
     count_query"
    by (simp add: accepted_sample)
  have v: "isValid (validateReadOnlyQuery (parse_sql sample_services) count_query)"
    by (simp add: sample_services_def valid_count)
  have c: "charged \<lparr>charged = True, message = None, balanceAfter = js_minus 50 zero_point_one\<rparr>"
    by simp
  have b: "balance sample_user = 100"
    by (simp add: sample_user_def)
  have d: "js_minus 50 zero_point_one \<noteq> js_minus 100 zero_point_one"
    by (simp add: number_values)
  from remaining_balance_from_snapshot[OF a v charge_stale c run_count_stale]
    a v charge_stale run_count_stale b d
  show ?thesis by (simp add: number_values)
qed

end
